theory Spec2Isabelle
  imports Complex_Main "HOL-Library.Word"
begin

section \<open>Data model: types/types.go\<close>

text \<open>
  A Go \<open>float64\<close> is modelled by the rational number it denotes, with the three
  non-finite values kept apart because \<open>json.Marshal\<close> refuses them. Rounding inside
  the range is not modelled: the shortest-digits formatting of \<open>strconv\<close>, which
  parses back to the same \<open>float64\<close>, appears here as exact printing of the rational.
  Rounding at the top of the range is modelled, since it decides which literals parse.
  Go's \<open>int\<close> is the 64-bit signed integer of the platforms the services are built
  for; it is read through \<open>sint\<close>.
\<close>

datatype float64 = Fin rat | PosInf | NegInf | NaN

record SourceCoords =
  OBUID :: "64 word"
  Lat :: float64
  Lon :: float64

text \<open>The zero value of the struct, which \<open>var recv types.SourceCoords\<close> and
  \<open>t := types.SourceCoords{}\<close> start from.\<close>

definition zeroCoords :: SourceCoords where
  "zeroCoords = \<lparr>OBUID = 0, Lat = Fin 0, Lon = Fin 0\<rparr>"

text \<open>The ranges the comments of types.go give for the two coordinates.\<close>

definition validCoords :: "SourceCoords \<Rightarrow> bool" where
  "validCoords r =
     (case Lat r of
        Fin x \<Rightarrow>
          (case Lon r of
             Fin y \<Rightarrow> - 90 \<le> x \<and> x \<le> 90 \<and> - 180 \<le> y \<and> y \<le> 180
           | _ \<Rightarrow> False)
      | _ \<Rightarrow> False)"

section \<open>The wire: JSON documents as encoding/json reads and writes them\<close>

text \<open>
  A payload is a byte slice. The lexical layer of encoding/json is not part of the
  repository, so a payload is modelled by what the scanner makes of it: a JSON document,
  or bytes that are not one (the empty slice among them). A number literal keeps the one
  lexical distinction the decoder is sensitive to: whether it is a plain integer
  literal, or carries a fraction or an exponent.
\<close>

datatype number = IntLit int | DecLit rat

datatype json =
    JNull
  | JBool bool
  | JNum number
  | JStr string
  | JArr "json list"
  | JObj "(string \<times> json) list"

datatype payload = Json json | NotJson

datatype json_error =
    SyntaxError
  | UnmarshalTypeError string
  | UnsupportedValueError

datatype field = F_OBUID | F_Lat | F_Lon

text \<open>The struct tags \<open>json:"obuid"\<close>, \<open>json:"lat"\<close>, \<open>json:"lon"\<close>, in field order.\<close>

definition jsonTags :: "(string \<times> field) list" where
  "jsonTags = [(''obuid'', F_OBUID), (''lat'', F_Lat), (''lon'', F_Lon)]"

definition toLower :: "char \<Rightarrow> char" where
  "toLower c =
     (let n = (of_char c :: nat)
      in if 65 \<le> n \<and> n \<le> 90 then char_of (n + 32) else c)"

text \<open>An object key selects the field whose tag it equals, or else the field whose tag
  it equals up to the case of its letters.\<close>

definition fieldByName :: "string \<Rightarrow> field option" where
  "fieldByName key =
     (case map_of jsonTags key of
        Some f \<Rightarrow> Some f
      | None \<Rightarrow> map_of jsonTags (map toLower key))"

definition MaxFloat64 :: rat where
  "MaxFloat64 = (2 ^ 53 - 1) * 2 ^ 971"

definition numberValue :: "number \<Rightarrow> rat" where
  "numberValue n = (case n of IntLit i \<Rightarrow> of_int i | DecLit q \<Rightarrow> q)"

text \<open>
  \<open>strconv.ParseFloat(s, 64)\<close> on the value of a literal. Parsing rounds to the
  nearest \<open>float64\<close>: a value less than half a unit in the last place above the
  largest float, that is below \<open>MaxFloat64 + 2 ^ 970\<close>, parses, and to the largest
  float when it lies above it; from there on the result is a range error.
\<close>

definition ParseFloat :: "rat \<Rightarrow> rat option" where
  "ParseFloat x =
     (if \<bar>x\<bar> < MaxFloat64 + 2 ^ 970
      then Some (if MaxFloat64 < x then MaxFloat64
                 else if x < - MaxFloat64 then - MaxFloat64 else x)
      else None)"

text \<open>
  Storing a JSON value into an \<open>int\<close> field: \<open>null\<close> leaves the field alone, an
  integer literal within 64 bits is stored, anything else is an
  \<open>UnmarshalTypeError\<close> and the field is skipped.
\<close>

fun storeInt :: "string \<Rightarrow> json \<Rightarrow> 64 word \<Rightarrow> 64 word \<times> json_error option" where
  "storeInt f JNull old = (old, None)"
| "storeInt f (JNum (IntLit i)) old =
     (if - (2 ^ 63) \<le> i \<and> i < 2 ^ 63 then (word_of_int i, None)
      else (old, Some (UnmarshalTypeError f)))"
| "storeInt f (JNum (DecLit q)) old = (old, Some (UnmarshalTypeError f))"
| "storeInt f (JBool b) old = (old, Some (UnmarshalTypeError f))"
| "storeInt f (JStr s) old = (old, Some (UnmarshalTypeError f))"
| "storeInt f (JArr xs) old = (old, Some (UnmarshalTypeError f))"
| "storeInt f (JObj kvs) old = (old, Some (UnmarshalTypeError f))"

text \<open>Storing into a \<open>float64\<close> field: any number literal that parses is
  stored.\<close>

fun storeFloat :: "string \<Rightarrow> json \<Rightarrow> float64 \<Rightarrow> float64 \<times> json_error option" where
  "storeFloat f JNull old = (old, None)"
| "storeFloat f (JNum n) old =
     (case ParseFloat (numberValue n) of
        Some y \<Rightarrow> (Fin y, None)
      | None \<Rightarrow> (old, Some (UnmarshalTypeError f)))"
| "storeFloat f (JBool b) old = (old, Some (UnmarshalTypeError f))"
| "storeFloat f (JStr s) old = (old, Some (UnmarshalTypeError f))"
| "storeFloat f (JArr xs) old = (old, Some (UnmarshalTypeError f))"
| "storeFloat f (JObj kvs) old = (old, Some (UnmarshalTypeError f))"

fun storeField :: "field \<Rightarrow> json \<Rightarrow> SourceCoords \<Rightarrow> SourceCoords \<times> json_error option" where
  "storeField F_OBUID v t =
     (case storeInt ''obuid'' v (OBUID t) of (x, e) \<Rightarrow> (t\<lparr>OBUID := x\<rparr>, e))"
| "storeField F_Lat v t =
     (case storeFloat ''lat'' v (Lat t) of (x, e) \<Rightarrow> (t\<lparr>Lat := x\<rparr>, e))"
| "storeField F_Lon v t =
     (case storeFloat ''lon'' v (Lon t) of (x, e) \<Rightarrow> (t\<lparr>Lon := x\<rparr>, e))"

text \<open>The decoder remembers the earliest type error and goes on with the next key.\<close>

definition saveError :: "json_error option \<Rightarrow> json_error option \<Rightarrow> json_error option" where
  "saveError saved e = (case saved of None \<Rightarrow> e | Some s \<Rightarrow> Some s)"

fun object :: "(string \<times> json) list \<Rightarrow> SourceCoords \<Rightarrow> json_error option
    \<Rightarrow> SourceCoords \<times> json_error option" where
  "object [] t saved = (t, saved)"
| "object ((key, v) # kvs) t saved =
     (case fieldByName key of
        None \<Rightarrow> object kvs t saved
      | Some f \<Rightarrow>
          (case storeField f v t of (t', e) \<Rightarrow> object kvs t' (saveError saved e)))"

text \<open>
  \<open>json.Unmarshal(data, &t)\<close> for \<open>t\<close> of type \<open>SourceCoords\<close>: the updated struct
  and the error. Invalid bytes are refused before the struct is touched; \<open>null\<close> is
  accepted and changes nothing; any other document that is not an object is a type error.
\<close>

fun Unmarshal :: "payload \<Rightarrow> SourceCoords \<Rightarrow> SourceCoords \<times> json_error option" where
  "Unmarshal NotJson t = (t, Some SyntaxError)"
| "Unmarshal (Json JNull) t = (t, None)"
| "Unmarshal (Json (JObj kvs)) t = object kvs t None"
| "Unmarshal (Json (JBool b)) t = (t, Some (UnmarshalTypeError []))"
| "Unmarshal (Json (JNum n)) t = (t, Some (UnmarshalTypeError []))"
| "Unmarshal (Json (JStr s)) t = (t, Some (UnmarshalTypeError []))"
| "Unmarshal (Json (JArr xs)) t = (t, Some (UnmarshalTypeError []))"

text \<open>A finite float prints as an integer literal when it is integral and below
  \<open>1e21\<close> in magnitude, and with a fraction or an exponent otherwise.\<close>

definition encodeFloat :: "rat \<Rightarrow> number" where
  "encodeFloat x =
     (if of_int \<lfloor>x\<rfloor> = x \<and> \<bar>x\<bar> < 10 ^ 21 then IntLit \<lfloor>x\<rfloor> else DecLit x)"

text \<open>\<open>json.Marshal(t)\<close>: the three tagged fields in declaration order; a non-finite
  float is an \<open>UnsupportedValueError\<close>.\<close>

definition Marshal :: "SourceCoords \<Rightarrow> json_error + payload" where
  "Marshal t =
     (case Lat t of
        Fin x \<Rightarrow>
          (case Lon t of
             Fin y \<Rightarrow>
               Inr (Json (JObj
                 [(''obuid'', JNum (IntLit (sint (OBUID t)))),
                  (''lat'', JNum (encodeFloat x)),
                  (''lon'', JNum (encodeFloat y))]))
           | _ \<Rightarrow> Inl UnsupportedValueError)
      | _ \<Rightarrow> Inl UnsupportedValueError)"

section \<open>The world outside: clock, output and the Kafka client\<close>

text \<open>
  Everything the three programs do besides computing is an entry of one ordered trace:
  calls into the Kafka client, lines written with \<open>log\<close> and \<open>fmt\<close>, a closed
  connection, a value sent on the consumer's channel. The replies of the Kafka client are
  not determined by the repository; they are given by an environment, as functions of the
  history up to the call.
\<close>

datatype kafka_error = KafkaError string

datatype line =
    FailedToCreateProducer kafka_error
  | ErrorLine kafka_error
  | FlushWarning int
  | WritingToKafkaTook int
  | UnexpectedClosure
  | KafkaReceiver SourceCoords
  | Resp payload
  | Took int
  | Headers string
  | CouldntUnmarshal json_error
  | ConsumerError kafka_error

datatype effect =
    Produced string payload
  | Flushed int
  | Print line
  | Log line
  | Closed
  | Sent SourceCoords

record world =
  clock :: nat
  trace :: "effect list"

record kafka_env =
  new_producer_reply :: "kafka_error option"
  produce_reply :: "effect list \<Rightarrow> kafka_error option"
  flush_reply :: "effect list \<Rightarrow> int"
  call_time :: "effect list \<Rightarrow> nat"

definition emit :: "effect \<Rightarrow> 'a world_scheme \<Rightarrow> 'a world_scheme" where
  "emit e w = w\<lparr>trace := trace w @ [e]\<rparr>"

text \<open>\<open>Producer.Produce\<close> and \<open>Producer.Flush\<close> of the client library: each is
  recorded, takes the time the environment says, and returns the environment's reply.\<close>

definition Produce :: "kafka_env \<Rightarrow> string \<Rightarrow> payload \<Rightarrow> world \<Rightarrow> kafka_error option \<times> world" where
  "Produce env tp v w =
     (produce_reply env (trace w),
      emit (Produced tp v) (w\<lparr>clock := clock w + call_time env (trace w)\<rparr>))"

definition Flush :: "kafka_env \<Rightarrow> int \<Rightarrow> world \<Rightarrow> int \<times> world" where
  "Flush env ms w =
     (flush_reply env (trace w),
      emit (Flushed ms) (w\<lparr>clock := clock w + call_time env (trace w)\<rparr>))"

section \<open>The bridge: data_receiver_kafka_producer\<close>

definition topic :: string where
  "topic = ''gpscoords''"

record KafkaProducer =
  producer_topic :: string

datatype outcome = Returned | Panicked

text \<open>\<open>NewKafkaProducer\<close>: the producer, or nil and the error after printing it. The
  goroutine that prints delivery reports is not modelled.\<close>

definition NewKafkaProducer :: "kafka_env \<Rightarrow> world
    \<Rightarrow> (KafkaProducer option \<times> kafka_error option) \<times> world" where
  "NewKafkaProducer env w =
     (case new_producer_reply env of
        Some err \<Rightarrow> ((None, Some err), emit (Print (FailedToCreateProducer err)) w)
      | None \<Rightarrow> ((Some \<lparr>producer_topic = topic\<rparr>, None), w))"

text \<open>
  \<open>KafkaWrite\<close>: one \<open>Produce\<close> whose result is dropped, then one
  \<open>Flush(15 * 1000)\<close>, and a warning when messages remain. On a nil receiver the
  first field access panics.
\<close>

definition KafkaWrite :: "kafka_env \<Rightarrow> KafkaProducer option \<Rightarrow> payload \<Rightarrow> world
    \<Rightarrow> outcome \<times> world" where
  "KafkaWrite env p word w =
     (case p of
        None \<Rightarrow> (Panicked, w)
      | Some kp \<Rightarrow>
          (case Produce env topic word w of
             (err, w1) \<Rightarrow>
               (case Flush env (15 * 1000) w1 of
                  (remaining, w2) \<Rightarrow>
                    (Returned,
                     if remaining > 0 then emit (Print (FlushWarning remaining)) w2
                     else w2))))"

text \<open>\<open>MiddlewareRead\<close>: the deferred log line runs after \<open>KafkaWrite\<close>, also when
  it panics.\<close>

definition MiddlewareRead :: "kafka_env \<Rightarrow> payload \<Rightarrow> KafkaProducer option \<Rightarrow> world
    \<Rightarrow> outcome \<times> world" where
  "MiddlewareRead env word t w =
     (let start = clock w
      in case KafkaWrite env t word w of
           (out, w1) \<Rightarrow>
             (out, emit (Log (WritingToKafkaTook (int (clock w1) - int start))) w1))"

text \<open>The bytes \<open>resp\<close> of \<open>resp, err := json.Marshal(recv)\<close>, whose error the
  loop does not look at: nil when marshalling fails.\<close>

definition resp :: "SourceCoords \<Rightarrow> payload" where
  "resp recv = (case Marshal recv of Inr b \<Rightarrow> b | Inl e \<Rightarrow> NotJson)"

text \<open>
  The \<open>for\<close> loop of \<open>ReadMessageLoop\<close>. The connection is the list of messages
  the peer sends before the connection ends; reading past the last one is the read error
  of a closed connection. Any error of \<open>ReadJSON\<close> logs and breaks.
\<close>

fun readLoop :: "kafka_env \<Rightarrow> KafkaProducer option \<Rightarrow> SourceCoords \<Rightarrow> payload list
    \<Rightarrow> world \<Rightarrow> outcome \<times> world" where
  "readLoop env k recv [] w = (Returned, emit (Log UnexpectedClosure) w)"
| "readLoop env k recv (m # ms) w =
     (case Unmarshal m recv of
        (recv', Some e) \<Rightarrow> (Returned, emit (Log UnexpectedClosure) w)
      | (recv', None) \<Rightarrow>
          (case MiddlewareRead env (resp recv') k
                  (emit (Log (Resp (resp recv'))) (emit (Log (KafkaReceiver recv')) w)) of
             (Panicked, w1) \<Rightarrow> (Panicked, w1)
           | (Returned, w1) \<Rightarrow> readLoop env k recv' ms w1))"

definition ReadMessageLoop :: "kafka_env \<Rightarrow> payload list \<Rightarrow> world \<Rightarrow> outcome \<times> world" where
  "ReadMessageLoop env conn w =
     (case NewKafkaProducer env w of
        ((k, err), w1) \<Rightarrow>
          (case readLoop env k zeroCoords conn
                  (case err of None \<Rightarrow> w1 | Some e \<Rightarrow> emit (Print (ErrorLine e)) w1) of
             (out, w2) \<Rightarrow> (out, emit Closed w2)))"

section \<open>The producer's middleware: producer/middleware.go\<close>

text \<open>The wrapped function is any function of the producer's world returning a triple;
  \<open>retOBUdata\<close>, which draws random numbers, is one.\<close>

definition MiddlewareReceiver ::
  "('a world_scheme \<Rightarrow> (64 word \<times> float64 \<times> float64) \<times> 'a world_scheme)
    \<Rightarrow> 'a world_scheme \<Rightarrow> (64 word \<times> float64 \<times> float64) \<times> 'a world_scheme" where
  "MiddlewareReceiver h w =
     (let start = clock w
      in case h w of
           (res, w1) \<Rightarrow> (res, emit (Log (Took (int (clock w1) - int start))) w1))"

section \<open>The consumer: kafka_reader/kafka/kafkaconsumer.go\<close>

datatype poll_event = KMessage string payload | KError kafka_error | KOther

text \<open>
  \<open>kafkaconsumeLoop\<close> over the events \<open>Poll\<close> returns. The result is the flag
  \<open>run\<close>, the variable \<open>t\<close> and the world; with the events used up and no error
  among them the loop is still polling. The unbuffered channel is the ordered list of
  values sent.
\<close>

fun kafkaconsumeLoop :: "poll_event list \<Rightarrow> SourceCoords \<Rightarrow> world \<Rightarrow> bool \<times> SourceCoords \<times> world" where
  "kafkaconsumeLoop [] t w = (True, t, w)"
| "kafkaconsumeLoop (KMessage hs v # evs) t w =
     (case Unmarshal v t of
        (t', err) \<Rightarrow>
          kafkaconsumeLoop evs t'
            (emit (Sent t')
              (case err of
                 None \<Rightarrow> emit (Log (Headers hs)) w
               | Some e \<Rightarrow> emit (Log (CouldntUnmarshal e)) (emit (Log (Headers hs)) w))))"
| "kafkaconsumeLoop (KError e # evs) t w =
     (False, t, emit Closed (emit (Print (ConsumerError e)) w))"
| "kafkaconsumeLoop (KOther # evs) t w = kafkaconsumeLoop evs t w"

section \<open>Observations on a trace\<close>

definition produced :: "effect list \<Rightarrow> payload list" where
  "produced tr = List.map_filter (\<lambda>e. case e of Produced tp v \<Rightarrow> Some v | _ \<Rightarrow> None) tr"

definition isKafkaCall :: "effect \<Rightarrow> bool" where
  "isKafkaCall e = (case e of Produced tp v \<Rightarrow> True | Flushed ms \<Rightarrow> True | _ \<Rightarrow> False)"

definition kafkaCalls :: "effect list \<Rightarrow> effect list" where
  "kafkaCalls tr = filter isKafkaCall tr"

definition sent :: "effect list \<Rightarrow> SourceCoords list" where
  "sent tr = List.map_filter (\<lambda>e. case e of Sent t \<Rightarrow> Some t | _ \<Rightarrow> None) tr"

text \<open>The records a session reads, in the order read, up to the first failing read.\<close>

fun readOrder :: "SourceCoords \<Rightarrow> payload list \<Rightarrow> SourceCoords list" where
  "readOrder recv [] = []"
| "readOrder recv (m # ms) =
     (case Unmarshal m recv of
        (recv', None) \<Rightarrow> recv' # readOrder recv' ms
      | (recv', Some e) \<Rightarrow> [])"

section \<open>Auxiliary notions used in the statements\<close>

text \<open>
  An object entry is acceptable to the decoder when its key names no field, or when its
  value is \<open>null\<close> or a number that fits the type of the field its key names: an
  integer literal within 64 bits for \<open>obuid\<close>, a number that rounds to a finite
  \<open>float64\<close> for \<open>lat\<close> and \<open>lon\<close>. Stated apart from the decoder.
\<close>

definition entryOk :: "string \<times> json \<Rightarrow> bool" where
  "entryOk kv =
     (case fieldByName (fst kv) of
        None \<Rightarrow> True
      | Some F_OBUID \<Rightarrow>
          (case snd kv of
             JNull \<Rightarrow> True
           | JNum (IntLit i) \<Rightarrow> - (2 ^ 63) \<le> i \<and> i < 2 ^ 63
           | _ \<Rightarrow> False)
      | Some _ \<Rightarrow>
          (case snd kv of
             JNull \<Rightarrow> True
           | JNum n \<Rightarrow> \<bar>numberValue n\<bar> < MaxFloat64 + 2 ^ 970
           | _ \<Rightarrow> False))"

text \<open>An object has no entry for a field when none of its keys names the field.\<close>

definition noEntryFor :: "field \<Rightarrow> (string \<times> json) list \<Rightarrow> bool" where
  "noEntryFor f kvs = list_all (\<lambda>kv. fieldByName (fst kv) \<noteq> Some f) kvs"

text \<open>The values the consumer loop hands on, in order: one for each message event,
  until an error event stops the loop.\<close>

fun forwarded :: "SourceCoords \<Rightarrow> poll_event list \<Rightarrow> SourceCoords list" where
  "forwarded t [] = []"
| "forwarded t (KMessage hs v # evs) =
     fst (Unmarshal v t) # forwarded (fst (Unmarshal v t)) evs"
| "forwarded t (KError e # evs) = []"
| "forwarded t (KOther # evs) = forwarded t evs"

text \<open>A broker that accepts everything and an empty world, for concrete runs.\<close>

definition quietEnv :: kafka_env where
  "quietEnv = \<lparr>new_producer_reply = None, produce_reply = (\<lambda>h. None),
           flush_reply = (\<lambda>h. 0), call_time = (\<lambda>h. 1)\<rparr>"

definition startWorld :: world where "startWorld = \<lparr>clock = 0, trace = []\<rparr>"

section \<open>The codec: encoding and decoding a record\<close>

lemma numberValue_encodeFloat: "numberValue (encodeFloat x) = x"
  by (simp add: numberValue_def encodeFloat_def)

lemma fieldByName_tags:
  "fieldByName ''obuid'' = Some F_OBUID"
  "fieldByName ''lat'' = Some F_Lat"
  "fieldByName ''lon'' = Some F_Lon"
  by (simp_all add: fieldByName_def jsonTags_def)

lemma MaxFloat64_ge: "180 \<le> MaxFloat64"
  by (simp add: MaxFloat64_def)

lemma storeInt_sint: "storeInt f (JNum (IntLit (sint (w :: 64 word)))) old = (w, None)"
proof -
  have "- (2 ^ 63) \<le> sint w" using sint_ge [of w] by simp
  moreover have "sint w < 2 ^ 63" using sint_lt [of w] by simp
  ultimately show ?thesis by simp
qed

lemma MaxFloat64_pos: "0 < MaxFloat64"
  by (simp add: MaxFloat64_def)

lemma ParseFloat_in_range: "\<bar>x\<bar> \<le> MaxFloat64 \<Longrightarrow> ParseFloat x = Some x"
  by (auto simp: ParseFloat_def)

lemma ParseFloat_None_iff: "ParseFloat x = None \<longleftrightarrow> \<not> \<bar>x\<bar> < MaxFloat64 + 2 ^ 970"
  by (simp add: ParseFloat_def)

text \<open>The literal \<open>1.7976931348623158e308\<close> lies above the largest float and parses
  to it.\<close>

lemma ParseFloat_rounds_at_top:
  "MaxFloat64 < 17976931348623158 * 10 ^ 292 \<and>
   ParseFloat (17976931348623158 * 10 ^ 292) = Some MaxFloat64"
  by (simp add: ParseFloat_def MaxFloat64_def)

lemma storeFloat_encodeFloat:
  "\<bar>x\<bar> \<le> MaxFloat64 \<Longrightarrow> storeFloat f (JNum (encodeFloat x)) old = (Fin x, None)"
  by (simp add: numberValue_encodeFloat ParseFloat_in_range del: storeInt.simps)

lemma Unmarshal_Marshal:
  assumes "Lat r = Fin x" "Lon r = Fin y" "\<bar>x\<bar> \<le> MaxFloat64" "\<bar>y\<bar> \<le> MaxFloat64"
  shows "Marshal r = Inr (resp r) \<and> Unmarshal (resp r) t = (r, None)"
  using assms
  by (simp add: Marshal_def resp_def fieldByName_tags storeInt_sint storeFloat_encodeFloat
      saveError_def del: storeInt.simps storeFloat.simps)

lemma validCoords_Fin:
  assumes "validCoords r"
  obtains x y where "Lat r = Fin x" "Lon r = Fin y"
    "- 90 \<le> x" "x \<le> 90" "- 180 \<le> y" "y \<le> 180"
  using assms by (auto simp: validCoords_def split: float64.splits)

text \<open>
  Claim C2. Encoding a record whose latitude lies in [-90, 90] and whose longitude lies
  in [-180, 180] succeeds, and decoding the bytes it produces gives the same record
  without an error, whatever the variable decoded into held before.
\<close>

theorem decode_encode_roundtrip:
  "validCoords r \<Longrightarrow> \<exists>b. Marshal r = Inr b \<and> Unmarshal b t = (r, None)"
proof -
  assume "validCoords r"
  then obtain x y where xy: "Lat r = Fin x" "Lon r = Fin y"
    and b: "- 90 \<le> x" "x \<le> 90" "- 180 \<le> y" "y \<le> 180"
    by (rule validCoords_Fin)
  have "\<bar>x\<bar> \<le> MaxFloat64" "\<bar>y\<bar> \<le> MaxFloat64"
    using b MaxFloat64_ge by auto
  with xy Unmarshal_Marshal [of r x y t] show ?thesis by blast
qed

theorem decode_encode_roundtrip_witness:
  "validCoords \<lparr>OBUID = 42, Lat = Fin (50891 / 1250), Lon = Fin (- (37003 / 500))\<rparr> \<and>
   (\<exists>b. Marshal \<lparr>OBUID = 42, Lat = Fin (50891 / 1250), Lon = Fin (- (37003 / 500))\<rparr> = Inr b \<and>
        Unmarshal b \<lparr>OBUID = 7, Lat = Fin 1, Lon = Fin 2\<rparr> =
          (\<lparr>OBUID = 42, Lat = Fin (50891 / 1250), Lon = Fin (- (37003 / 500))\<rparr>, None))"
proof -
  have v: "validCoords \<lparr>OBUID = 42, Lat = Fin (50891 / 1250), Lon = Fin (- (37003 / 500))\<rparr>"
    by (simp add: validCoords_def)
  show ?thesis
    using v decode_encode_roundtrip [OF v, of "\<lparr>OBUID = 7, Lat = Fin 1, Lon = Fin 2\<rparr>"]
    by blast
qed

text \<open>
  Claim C6. For a record with coordinates in range, encoding does not fail, and its
  output is a JSON object with exactly the keys "obuid", "lat" and "lon", in this order:
  "obuid" carries an integer literal, the identifier read as a signed number, and "lat"
  and "lon" carry number literals denoting the two coordinates.
\<close>

theorem encode_wire_format:
  "validCoords r \<Longrightarrow>
   \<exists>a b. Marshal r =
       Inr (Json (JObj [(''obuid'', JNum (IntLit (sint (OBUID r)))),
                        (''lat'', JNum a), (''lon'', JNum b)])) \<and>
     Lat r = Fin (numberValue a) \<and> Lon r = Fin (numberValue b)"
proof -
  assume "validCoords r"
  then obtain x y where xy: "Lat r = Fin x" "Lon r = Fin y"
    by (rule validCoords_Fin)
  then have "Marshal r =
       Inr (Json (JObj [(''obuid'', JNum (IntLit (sint (OBUID r)))),
                        (''lat'', JNum (encodeFloat x)), (''lon'', JNum (encodeFloat y))]))"
    by (simp add: Marshal_def)
  with xy show ?thesis
    using numberValue_encodeFloat by metis
qed

theorem encode_wire_format_witness:
  "validCoords \<lparr>OBUID = 42, Lat = Fin 45, Lon = Fin (- (37003 / 500))\<rparr> \<and>
   (\<exists>a b. Marshal \<lparr>OBUID = 42, Lat = Fin 45, Lon = Fin (- (37003 / 500))\<rparr> =
       Inr (Json (JObj [(''obuid'', JNum (IntLit 42)), (''lat'', JNum a), (''lon'', JNum b)])) \<and>
     numberValue a = 45 \<and> numberValue b = - (37003 / 500))"
proof -
  have v: "validCoords \<lparr>OBUID = 42, Lat = Fin 45, Lon = Fin (- (37003 / 500))\<rparr>"
    by (simp add: validCoords_def)
  show ?thesis
    using v encode_wire_format [OF v] by auto
qed

section \<open>Traces and the calls of the bridge\<close>

lemma trace_emit [simp]: "trace (emit e w) = trace w @ [e]"
  by (simp add: emit_def)

lemma clock_emit [simp]: "clock (emit e w) = clock w"
  by (simp add: emit_def)

lemma produced_append [simp]: "produced (xs @ ys) = produced xs @ produced ys"
  by (simp add: produced_def map_filter_def)

lemma kafkaCalls_append [simp]: "kafkaCalls (xs @ ys) = kafkaCalls xs @ kafkaCalls ys"
  by (simp add: kafkaCalls_def)

lemma sent_append [simp]: "sent (xs @ ys) = sent xs @ sent ys"
  by (simp add: sent_def map_filter_def)

lemma produced_simps [simp]:
  "produced [] = []"
  "produced (Produced tp v # es) = v # produced es"
  "produced (Flushed n # es) = produced es"
  "produced (Print l # es) = produced es"
  "produced (Log l # es) = produced es"
  "produced (Closed # es) = produced es"
  "produced (Sent t # es) = produced es"
  by (simp_all add: produced_def map_filter_def)

lemma kafkaCalls_simps [simp]:
  "kafkaCalls [] = []"
  "kafkaCalls (Produced tp v # es) = Produced tp v # kafkaCalls es"
  "kafkaCalls (Flushed n # es) = Flushed n # kafkaCalls es"
  "kafkaCalls (Print l # es) = kafkaCalls es"
  "kafkaCalls (Log l # es) = kafkaCalls es"
  "kafkaCalls (Closed # es) = kafkaCalls es"
  "kafkaCalls (Sent t # es) = kafkaCalls es"
  by (simp_all add: kafkaCalls_def isKafkaCall_def)

lemma sent_simps [simp]:
  "sent [] = []"
  "sent (Produced tp v # es) = sent es"
  "sent (Flushed n # es) = sent es"
  "sent (Print l # es) = sent es"
  "sent (Log l # es) = sent es"
  "sent (Closed # es) = sent es"
  "sent (Sent t # es) = t # sent es"
  by (simp_all add: sent_def map_filter_def)

lemma KafkaWrite_Some_trace:
  "KafkaWrite env (Some kp) word w =
      (Returned, w\<lparr>clock := clock w + call_time env (trace w)
                       + call_time env (trace w @ [Produced topic word]),
                   trace := trace w @ [Produced topic word, Flushed 15000] @
                     (if flush_reply env (trace w @ [Produced topic word]) > 0
                      then [Print (FlushWarning (flush_reply env (trace w @ [Produced topic word])))]
                      else [])\<rparr>)"
  by (simp add: KafkaWrite_def Produce_def Flush_def emit_def)

lemma KafkaWrite_Some_fst: "fst (KafkaWrite env (Some kp) word w) = Returned"
  by (simp add: KafkaWrite_Some_trace)

lemma KafkaWrite_Some_calls:
  "kafkaCalls (trace (snd (KafkaWrite env (Some kp) word w))) =
     kafkaCalls (trace w) @ [Produced topic word, Flushed 15000]"
  by (simp add: KafkaWrite_Some_trace)

lemma KafkaWrite_Some_produced:
  "produced (trace (snd (KafkaWrite env (Some kp) word w))) = produced (trace w) @ [word]"
  by (simp add: KafkaWrite_Some_trace)

lemma KafkaWrite_None: "KafkaWrite env None word w = (Panicked, w)"
  by (simp add: KafkaWrite_def)

lemma MiddlewareRead_fst: "fst (MiddlewareRead env word t w) = fst (KafkaWrite env t word w)"
  by (simp add: MiddlewareRead_def Let_def split: prod.splits)

lemma MiddlewareRead_snd:
  "snd (MiddlewareRead env word t w) =
     emit (Log (WritingToKafkaTook (int (clock (snd (KafkaWrite env t word w))) - int (clock w))))
       (snd (KafkaWrite env t word w))"
  by (simp add: MiddlewareRead_def Let_def split: prod.splits)

lemma MiddlewareRead_Some_produced:
  "produced (trace (snd (MiddlewareRead env word (Some kp) w))) = produced (trace w) @ [word]"
  by (simp add: MiddlewareRead_snd KafkaWrite_Some_produced)

lemma MiddlewareRead_Some_calls:
  "kafkaCalls (trace (snd (MiddlewareRead env word (Some kp) w))) =
     kafkaCalls (trace w) @ [Produced topic word, Flushed 15000]"
  by (simp add: MiddlewareRead_snd KafkaWrite_Some_calls)

lemma MiddlewareRead_Some_fst: "fst (MiddlewareRead env word (Some kp) w) = Returned"
  by (simp add: MiddlewareRead_fst KafkaWrite_Some_fst)

lemma readLoop_Cons_ok:
  assumes "Unmarshal m recv = (recv', None)"
  shows "readLoop env (Some kp) recv (m # ms) w =
     readLoop env (Some kp) recv' ms
       (snd (MiddlewareRead env (resp recv') (Some kp)
          (emit (Log (Resp (resp recv'))) (emit (Log (KafkaReceiver recv')) w))))"
proof -
  obtain out w1 where mw: "MiddlewareRead env (resp recv') (Some kp)
          (emit (Log (Resp (resp recv'))) (emit (Log (KafkaReceiver recv')) w)) = (out, w1)"
    by (cases "MiddlewareRead env (resp recv') (Some kp)
          (emit (Log (Resp (resp recv'))) (emit (Log (KafkaReceiver recv')) w))")
  have "out = Returned"
    using MiddlewareRead_Some_fst [of env "resp recv'" kp
        "emit (Log (Resp (resp recv'))) (emit (Log (KafkaReceiver recv')) w)"] mw
    by simp
  with assms mw show ?thesis by simp
qed

lemma readLoop_Cons_err:
  assumes "Unmarshal m recv = (recv', Some e)"
  shows "readLoop env k recv (m # ms) w = (Returned, emit (Log UnexpectedClosure) w)"
  using assms by simp

lemma readLoop_produced:
  "produced (trace (snd (readLoop env (Some kp) recv ms w))) =
     produced (trace w) @ map resp (readOrder recv ms)"
proof (induction ms arbitrary: recv w)
  case Nil
  show ?case by simp
next
  case (Cons m ms)
  obtain recv' err where u: "Unmarshal m recv = (recv', err)"
    by (cases "Unmarshal m recv")
  show ?case
  proof (cases err)
    case None
    with u have ok: "Unmarshal m recv = (recv', None)" by simp
    show ?thesis
      by (simp only: readLoop_Cons_ok [OF ok] Cons.IH)
         (simp add: ok MiddlewareRead_Some_produced)
  next
    case (Some e)
    with u have bad: "Unmarshal m recv = (recv', Some e)" by simp
    show ?thesis
      by (simp only: readLoop_Cons_err [OF bad]) (simp add: bad)
  qed
qed

lemma readLoop_calls:
  "kafkaCalls (trace (snd (readLoop env (Some kp) recv ms w))) =
     kafkaCalls (trace w) @
       concat (map (\<lambda>r. [Produced topic (resp r), Flushed 15000]) (readOrder recv ms))"
proof (induction ms arbitrary: recv w)
  case Nil
  show ?case by simp
next
  case (Cons m ms)
  obtain recv' err where u: "Unmarshal m recv = (recv', err)"
    by (cases "Unmarshal m recv")
  show ?case
  proof (cases err)
    case None
    with u have ok: "Unmarshal m recv = (recv', None)" by simp
    show ?thesis
      by (simp only: readLoop_Cons_ok [OF ok] Cons.IH)
         (simp add: ok MiddlewareRead_Some_calls)
  next
    case (Some e)
    with u have bad: "Unmarshal m recv = (recv', Some e)" by simp
    show ?thesis
      by (simp only: readLoop_Cons_err [OF bad]) (simp add: bad)
  qed
qed

lemma readLoop_fst_Some: "fst (readLoop env (Some kp) recv ms w) = Returned"
proof (induction ms arbitrary: recv w)
  case Nil
  show ?case by simp
next
  case (Cons m ms)
  obtain recv' err where u: "Unmarshal m recv = (recv', err)"
    by (cases "Unmarshal m recv")
  show ?case
  proof (cases err)
    case None
    with u have ok: "Unmarshal m recv = (recv', None)" by simp
    show ?thesis by (simp only: readLoop_Cons_ok [OF ok] Cons.IH)
  next
    case (Some e)
    with u have bad: "Unmarshal m recv = (recv', Some e)" by simp
    show ?thesis by (simp only: readLoop_Cons_err [OF bad]) simp
  qed
qed

section \<open>Which documents the decoder accepts\<close>

lemma storeInt_ok_iff:
  "snd (storeInt f v old) = None \<longleftrightarrow>
     (case v of JNull \<Rightarrow> True | JNum (IntLit i) \<Rightarrow> - (2 ^ 63) \<le> i \<and> i < 2 ^ 63 | _ \<Rightarrow> False)"
  by (cases "(f, v, old)" rule: storeInt.cases) auto

lemma storeFloat_ok_iff:
  "snd (storeFloat f v old) = None \<longleftrightarrow>
     (case v of JNull \<Rightarrow> True | JNum n \<Rightarrow> \<bar>numberValue n\<bar> < MaxFloat64 + 2 ^ 970
      | _ \<Rightarrow> False)"
proof (cases v)
  case (JNum n)
  have "snd (storeFloat f (JNum n) old) = None \<longleftrightarrow> ParseFloat (numberValue n) \<noteq> None"
    by (simp split: option.splits)
  with JNum show ?thesis
    using ParseFloat_None_iff [of "numberValue n"] by simp
qed simp_all

lemma snd_storeField:
  "snd (storeField F_OBUID v t) = snd (storeInt ''obuid'' v (OBUID t))"
  "snd (storeField F_Lat v t) = snd (storeFloat ''lat'' v (Lat t))"
  "snd (storeField F_Lon v t) = snd (storeFloat ''lon'' v (Lon t))"
  by (simp_all split: prod.splits)

lemma storeField_ok_iff:
  "fieldByName key = Some f \<Longrightarrow> snd (storeField f v t) = None \<longleftrightarrow> entryOk (key, v)"
  by (cases f)
     (simp_all only: snd_storeField storeInt_ok_iff storeFloat_ok_iff entryOk_def
        fst_conv snd_conv option.case field.case)

lemma storeInt_bad_keeps: "snd (storeInt f v old) \<noteq> None \<Longrightarrow> fst (storeInt f v old) = old"
  by (cases "(f, v, old)" rule: storeInt.cases) (auto split: if_splits)

lemma storeFloat_bad_keeps: "snd (storeFloat f v old) \<noteq> None \<Longrightarrow> fst (storeFloat f v old) = old"
  by (cases "(f, v, old)" rule: storeFloat.cases) (auto split: option.splits)

lemma storeField_bad_keeps:
  "snd (storeField f v t) \<noteq> None \<Longrightarrow> fst (storeField f v t) = t"
  using storeInt_bad_keeps [of "''obuid''" v "OBUID t"]
    storeFloat_bad_keeps [of "''lat''" v "Lat t"] storeFloat_bad_keeps [of "''lon''" v "Lon t"]
  by (cases f) (auto split: prod.splits)

lemma object_ok_iff:
  "snd (object kvs t saved) = None \<longleftrightarrow> saved = None \<and> list_all entryOk kvs"
proof (induction kvs arbitrary: t saved)
  case Nil
  show ?case by simp
next
  case (Cons kv kvs)
  obtain key v where kv: "kv = (key, v)" by (cases kv)
  show ?case
  proof (cases "fieldByName key")
    case None
    then show ?thesis by (simp add: kv Cons.IH entryOk_def)
  next
    case (Some f)
    obtain t' e where sf: "storeField f v t = (t', e)" by (cases "storeField f v t")
    have "e = None \<longleftrightarrow> entryOk (key, v)"
      using storeField_ok_iff [OF Some, of v t] sf by simp
    then show ?thesis
      by (auto simp: kv Some sf Cons.IH saveError_def split: option.splits)
  qed
qed

lemma fst_object_saved: "fst (object kvs t saved) = fst (object kvs t saved')"
  by (induction kvs arbitrary: t saved saved') (auto split: option.splits prod.splits)

lemma object_filter_ok:
  "fst (object kvs t saved) = fst (object (filter entryOk kvs) t saved)"
proof (induction kvs arbitrary: t saved)
  case Nil
  show ?case by simp
next
  case (Cons kv kvs)
  obtain key v where kv: "kv = (key, v)" by (cases kv)
  show ?case
  proof (cases "fieldByName key")
    case None
    then have "entryOk (key, v)" by (simp add: entryOk_def)
    with None show ?thesis by (simp add: kv Cons.IH)
  next
    case (Some f)
    obtain t' e where sf: "storeField f v t = (t', e)" by (cases "storeField f v t")
    show ?thesis
    proof (cases "entryOk (key, v)")
      case True
      then show ?thesis
        using Cons.IH [of t' "saveError saved e"] fst_object_saved [of "filter entryOk kvs" t' "saveError saved e" saved]
        by (simp add: kv Some sf)
    next
      case False
      then have "e \<noteq> None" using storeField_ok_iff [OF Some, of v t] sf by simp
      then have "t' = t" using storeField_bad_keeps [of f v t] sf by simp
      with False show ?thesis
        using Cons.IH [of t saved] fst_object_saved [of kvs t "saveError saved e" saved]
        by (simp add: kv Some sf)
    qed
  qed
qed

section \<open>The session loop of the bridge\<close>

lemma KafkaWrite_produce_reply:
  "KafkaWrite (env\<lparr>produce_reply := f\<rparr>) p word w = KafkaWrite env p word w"
  by (simp add: KafkaWrite_def Produce_def Flush_def split: option.splits)

lemma MiddlewareRead_produce_reply:
  "MiddlewareRead (env\<lparr>produce_reply := f\<rparr>) word p w = MiddlewareRead env word p w"
  by (simp add: MiddlewareRead_def KafkaWrite_produce_reply)

lemma readLoop_produce_reply:
  "readLoop (env\<lparr>produce_reply := f\<rparr>) k recv ms w = readLoop env k recv ms w"
  by (induction ms arbitrary: recv w)
     (simp_all add: MiddlewareRead_produce_reply split: prod.splits option.splits outcome.splits)

lemma ReadMessageLoop_produce_reply:
  "ReadMessageLoop (env\<lparr>produce_reply := f\<rparr>) conn w = ReadMessageLoop env conn w"
  by (simp add: ReadMessageLoop_def NewKafkaProducer_def readLoop_produce_reply)

lemma ReadMessageLoop_producer_ok:
  "new_producer_reply env = None \<Longrightarrow>
   ReadMessageLoop env conn w =
     (fst (readLoop env (Some \<lparr>producer_topic = topic\<rparr>) zeroCoords conn w),
      emit Closed (snd (readLoop env (Some \<lparr>producer_topic = topic\<rparr>) zeroCoords conn w)))"
  by (simp add: ReadMessageLoop_def NewKafkaProducer_def split: prod.splits)

text \<open>When the producer could not be created the loop runs with a nil producer: the
  first message that decodes panics inside \<open>KafkaWrite\<close>, and nothing is published.\<close>

lemma readLoop_nil_producer:
  "produced (trace (snd (readLoop env None recv ms w))) = produced (trace w)"
  by (cases ms)
     (auto simp: MiddlewareRead_def KafkaWrite_None split: prod.splits option.splits outcome.splits)

lemma ReadMessageLoop_without_producer:
  "new_producer_reply env = Some e \<Longrightarrow>
   produced (trace (snd (ReadMessageLoop env conn w))) = produced (trace w)"
proof -
  assume f: "new_producer_reply env = Some e"
  have "snd (ReadMessageLoop env conn w) =
      emit Closed (snd (readLoop env None zeroCoords conn
        (emit (Print (ErrorLine e)) (emit (Print (FailedToCreateProducer e)) w))))"
    using f by (simp add: ReadMessageLoop_def NewKafkaProducer_def split: prod.splits)
  then show ?thesis by (simp add: readLoop_nil_producer)
qed

lemma readLoop_nil_producer_panics:
  "snd (Unmarshal m recv) = None \<Longrightarrow> fst (readLoop env None recv (m # ms) w) = Panicked"
  by (cases "Unmarshal m recv") (simp add: MiddlewareRead_def KafkaWrite_None)

lemma encodeFloat_half: "encodeFloat (1 / 2) = DecLit (1 / 2)"
  by code_simp

text \<open>
  Claim C3. A session whose producer was created publishes in the order it reads: the
  payloads handed to \<open>Produce\<close> during \<open>ReadMessageLoop\<close> are the encodings
  of the records read from the connection, one for each, in the order they were read.
  For three records read in the order r1, r2, r3 the publish attempts are r1, r2, r3.
\<close>

theorem publish_in_read_order:
  "new_producer_reply env = None \<Longrightarrow>
   produced (trace (snd (ReadMessageLoop env conn w))) =
     produced (trace w) @ map resp (readOrder zeroCoords conn)"
  by (simp add: ReadMessageLoop_producer_ok readLoop_produced)

theorem publish_in_read_order_witness:
  "new_producer_reply quietEnv = None \<and>
   produced (trace (snd (ReadMessageLoop quietEnv
     [Json (JObj [(''obuid'', JNum (IntLit 1)), (''lat'', JNum (DecLit (1 / 2))), (''lon'', JNum (DecLit (1 / 2)))]),
      Json (JObj [(''obuid'', JNum (IntLit 2)), (''lat'', JNum (DecLit (1 / 2))), (''lon'', JNum (DecLit (1 / 2)))]),
      Json (JObj [(''obuid'', JNum (IntLit 3)), (''lat'', JNum (DecLit (1 / 2))), (''lon'', JNum (DecLit (1 / 2)))])]
     startWorld))) =
     [Json (JObj [(''obuid'', JNum (IntLit 1)), (''lat'', JNum (DecLit (1 / 2))), (''lon'', JNum (DecLit (1 / 2)))]),
      Json (JObj [(''obuid'', JNum (IntLit 2)), (''lat'', JNum (DecLit (1 / 2))), (''lon'', JNum (DecLit (1 / 2)))]),
      Json (JObj [(''obuid'', JNum (IntLit 3)), (''lat'', JNum (DecLit (1 / 2))), (''lon'', JNum (DecLit (1 / 2)))])]"
proof -
  have h: "new_producer_reply quietEnv = None" by (simp add: quietEnv_def)
  show ?thesis
    using h publish_in_read_order [OF h, of
     "[Json (JObj [(''obuid'', JNum (IntLit 1)), (''lat'', JNum (DecLit (1 / 2))), (''lon'', JNum (DecLit (1 / 2)))]),
      Json (JObj [(''obuid'', JNum (IntLit 2)), (''lat'', JNum (DecLit (1 / 2))), (''lon'', JNum (DecLit (1 / 2)))]),
      Json (JObj [(''obuid'', JNum (IntLit 3)), (''lat'', JNum (DecLit (1 / 2))), (''lon'', JNum (DecLit (1 / 2)))])]"
     startWorld]
    by (simp add: startWorld_def resp_def Marshal_def fieldByName_tags saveError_def
        numberValue_def ParseFloat_def MaxFloat64_def encodeFloat_half)
qed

text \<open>
  Claim C5. Every call of \<open>KafkaWrite\<close> on a producer makes exactly two calls into
  the Kafka client: one \<open>Produce\<close> of the payload on the topic, then one
  \<open>Flush\<close> with a timeout of 15000 milliseconds. Over a whole session the calls
  alternate, one \<open>Produce\<close> and one \<open>Flush\<close> for each record read, so no two
  records are produced without a flush between them.
\<close>

theorem KafkaWrite_produce_then_flush:
  "fst (KafkaWrite env (Some kp) word w) = Returned \<and>
   kafkaCalls (trace (snd (KafkaWrite env (Some kp) word w))) =
     kafkaCalls (trace w) @ [Produced topic word, Flushed 15000] \<and>
   kafkaCalls (trace (snd (readLoop env (Some kp) recv ms w))) =
     kafkaCalls (trace w) @
       concat (map (\<lambda>r. [Produced topic (resp r), Flushed 15000]) (readOrder recv ms))"
  by (simp only: KafkaWrite_Some_fst KafkaWrite_Some_calls readLoop_calls simp_thms)

section \<open>The timing middleware\<close>

lemma MiddlewareReceiver_fst: "fst (MiddlewareReceiver h w) = fst (h w)"
  by (simp add: MiddlewareReceiver_def split: prod.splits)

lemma MiddlewareReceiver_snd:
  "snd (MiddlewareReceiver h w) =
     emit (Log (Took (int (clock (snd (h w))) - int (clock w)))) (snd (h w))"
  by (simp add: MiddlewareReceiver_def split: prod.splits)

text \<open>
  Claim C7. The two timing wrappers pass the data through unchanged.
  \<open>MiddlewareReceiver h\<close> returns the triple \<open>h\<close> returns and leaves the world as
  \<open>h\<close> left it, but for one log line with the elapsed time. \<open>MiddlewareRead\<close>
  ends as its single call of \<open>KafkaWrite\<close> ends and leaves the world as that call
  left it, but for one log line; the calls into the Kafka client are those of
  \<open>KafkaWrite\<close>.
\<close>

theorem middleware_is_identity:
  "fst (MiddlewareReceiver h w) = fst (h w) \<and>
   snd (MiddlewareReceiver h w) =
     emit (Log (Took (int (clock (snd (h w))) - int (clock w)))) (snd (h w)) \<and>
   fst (MiddlewareRead env word t w0) = fst (KafkaWrite env t word w0) \<and>
   snd (MiddlewareRead env word t w0) =
     emit (Log (WritingToKafkaTook (int (clock (snd (KafkaWrite env t word w0))) - int (clock w0))))
       (snd (KafkaWrite env t word w0)) \<and>
   kafkaCalls (trace (snd (MiddlewareRead env word t w0))) =
     kafkaCalls (trace (snd (KafkaWrite env t word w0)))"
  by (simp add: MiddlewareReceiver_fst MiddlewareReceiver_snd MiddlewareRead_fst MiddlewareRead_snd)

section \<open>What a session learns of a failed publish\<close>

text \<open>
  Claim C9. \<open>KafkaWrite\<close> on a producer returns normally, and what it returns and
  does is the same whatever \<open>Produce\<close> replies: the reply is dropped. The same holds
  for the whole of \<open>ReadMessageLoop\<close>, so a session cannot tell a failed publish
  from a successful one.
\<close>

theorem KafkaWrite_reports_nothing:
  "fst (KafkaWrite env (Some kp) word w) = Returned \<and>
   KafkaWrite (env\<lparr>produce_reply := f\<rparr>) p word w = KafkaWrite env p word w \<and>
   ReadMessageLoop (env\<lparr>produce_reply := f\<rparr>) conn w = ReadMessageLoop env conn w"
  by (simp add: KafkaWrite_Some_fst KafkaWrite_produce_reply ReadMessageLoop_produce_reply)

section \<open>A failing read ends the session\<close>

text \<open>
  Claim C4 says that after a message that fails to decode the session goes on reading.
  The loop breaks on every error of \<open>ReadJSON\<close>: with a first message that is not
  JSON, or whose latitude is a string, the session logs, closes the connection and
  returns; the well-formed second message is never read and nothing is published.
\<close>

theorem session_ends_on_decode_failure:
  "ReadMessageLoop quietEnv
     [NotJson,
      Json (JObj [(''obuid'', JNum (IntLit 1)), (''lat'', JNum (IntLit 2)), (''lon'', JNum (IntLit 3))])]
     startWorld
   = (Returned, \<lparr>clock = 0, trace = [Log UnexpectedClosure, Closed]\<rparr>) \<and>
   ReadMessageLoop quietEnv
     [Json (JObj [(''obuid'', JNum (IntLit 1)), (''lat'', JStr ''north'')]),
      Json (JObj [(''obuid'', JNum (IntLit 1)), (''lat'', JNum (IntLit 2)), (''lon'', JNum (IntLit 3))])]
     startWorld
   = (Returned, \<lparr>clock = 0, trace = [Log UnexpectedClosure, Closed]\<rparr>)"
  by (simp add: ReadMessageLoop_def NewKafkaProducer_def quietEnv_def startWorld_def emit_def
      fieldByName_tags saveError_def)

section \<open>What the decoder rejects\<close>

text \<open>
  Claim C1 says that a message with a coordinate out of range, or with a field missing,
  is rejected and never published. The decoder checks neither: a message with latitude 95
  and longitude 200 decodes without error into a record that is not valid, and is
  published; a message with only \<open>obuid\<close> decodes without error and is published
  with the coordinates the variable held.
\<close>

theorem out_of_range_message_is_published:
  "snd (Unmarshal
     (Json (JObj [(''obuid'', JNum (IntLit 1)), (''lat'', JNum (IntLit 95)), (''lon'', JNum (IntLit 200))]))
     zeroCoords) = None \<and>
   \<not> validCoords (fst (Unmarshal
     (Json (JObj [(''obuid'', JNum (IntLit 1)), (''lat'', JNum (IntLit 95)), (''lon'', JNum (IntLit 200))]))
     zeroCoords)) \<and>
   produced (trace (snd (ReadMessageLoop quietEnv
     [Json (JObj [(''obuid'', JNum (IntLit 1)), (''lat'', JNum (IntLit 95)), (''lon'', JNum (IntLit 200))])]
     startWorld))) =
     [Json (JObj [(''obuid'', JNum (IntLit 1)), (''lat'', JNum (IntLit 95)), (''lon'', JNum (IntLit 200))])] \<and>
   snd (Unmarshal (Json (JObj [(''obuid'', JNum (IntLit 7))])) zeroCoords) = None \<and>
   produced (trace (snd (ReadMessageLoop quietEnv
     [Json (JObj [(''obuid'', JNum (IntLit 7))])] startWorld))) =
     [Json (JObj [(''obuid'', JNum (IntLit 7)), (''lat'', JNum (IntLit 0)), (''lon'', JNum (IntLit 0))])]"
  by (simp add: ReadMessageLoop_def NewKafkaProducer_def quietEnv_def startWorld_def
      resp_def Marshal_def fieldByName_tags saveError_def numberValue_def ParseFloat_def MaxFloat64_def
      encodeFloat_def zeroCoords_def validCoords_def MiddlewareRead_def KafkaWrite_def
      Produce_def Flush_def emit_def topic_def)

lemma storeField_other:
  "Lat (fst (storeField F_OBUID v t)) = Lat t" "Lon (fst (storeField F_OBUID v t)) = Lon t"
  "OBUID (fst (storeField F_Lat v t)) = OBUID t" "Lon (fst (storeField F_Lat v t)) = Lon t"
  "OBUID (fst (storeField F_Lon v t)) = OBUID t" "Lat (fst (storeField F_Lon v t)) = Lat t"
  by (simp_all split: prod.splits)

lemma object_noEntryFor_OBUID:
  "noEntryFor F_OBUID kvs \<Longrightarrow> OBUID (fst (object kvs t saved)) = OBUID t"
proof (induction kvs arbitrary: t saved)
  case Nil
  show ?case by simp
next
  case (Cons kv kvs)
  obtain key v where kv: "kv = (key, v)" by (cases kv)
  from Cons.prems have rest: "noEntryFor F_OBUID kvs" and k: "fieldByName key \<noteq> Some F_OBUID"
    by (simp_all add: noEntryFor_def kv)
  show ?case
  proof (cases "fieldByName key")
    case None
    then show ?thesis by (simp add: kv Cons.IH [OF rest])
  next
    case (Some f)
    with k have "f \<noteq> F_OBUID" by simp
    then have "OBUID (fst (storeField f v t)) = OBUID t"
      by (cases f) (simp_all add: storeField_other del: storeField.simps)
    then show ?thesis
      by (cases "storeField f v t") (simp add: kv Some Cons.IH [OF rest])
  qed
qed

lemma object_noEntryFor_Lat:
  "noEntryFor F_Lat kvs \<Longrightarrow> Lat (fst (object kvs t saved)) = Lat t"
proof (induction kvs arbitrary: t saved)
  case Nil
  show ?case by simp
next
  case (Cons kv kvs)
  obtain key v where kv: "kv = (key, v)" by (cases kv)
  from Cons.prems have rest: "noEntryFor F_Lat kvs" and k: "fieldByName key \<noteq> Some F_Lat"
    by (simp_all add: noEntryFor_def kv)
  show ?case
  proof (cases "fieldByName key")
    case None
    then show ?thesis by (simp add: kv Cons.IH [OF rest])
  next
    case (Some f)
    with k have "f \<noteq> F_Lat" by simp
    then have "Lat (fst (storeField f v t)) = Lat t"
      by (cases f) (simp_all add: storeField_other del: storeField.simps)
    then show ?thesis
      by (cases "storeField f v t") (simp add: kv Some Cons.IH [OF rest])
  qed
qed

lemma object_noEntryFor_Lon:
  "noEntryFor F_Lon kvs \<Longrightarrow> Lon (fst (object kvs t saved)) = Lon t"
proof (induction kvs arbitrary: t saved)
  case Nil
  show ?case by simp
next
  case (Cons kv kvs)
  obtain key v where kv: "kv = (key, v)" by (cases kv)
  from Cons.prems have rest: "noEntryFor F_Lon kvs" and k: "fieldByName key \<noteq> Some F_Lon"
    by (simp_all add: noEntryFor_def kv)
  show ?case
  proof (cases "fieldByName key")
    case None
    then show ?thesis by (simp add: kv Cons.IH [OF rest])
  next
    case (Some f)
    with k have "f \<noteq> F_Lon" by simp
    then have "Lon (fst (storeField f v t)) = Lon t"
      by (cases f) (simp_all add: storeField_other del: storeField.simps)
    then show ?thesis
      by (cases "storeField f v t") (simp add: kv Some Cons.IH [OF rest])
  qed
qed

lemma readLoop_rejected_single:
  "snd (Unmarshal m recv) \<noteq> None \<Longrightarrow>
   produced (trace (snd (readLoop env k recv [m] w))) = produced (trace w)"
  by (cases "Unmarshal m recv") auto

lemma readLoop_accepted_first:
  "snd (Unmarshal m recv) = None \<Longrightarrow>
   \<exists>rest. produced (trace (snd (readLoop env (Some kp) recv (m # ms) w))) =
     produced (trace w) @ resp (fst (Unmarshal m recv)) # rest"
  using readLoop_produced [of env kp recv "m # ms" w]
  by (cases "Unmarshal m recv") (simp del: readLoop.simps)

text \<open>The literal \<open>1.7976931348623158e308\<close> as a latitude is accepted, and the
  largest float is stored.\<close>

lemma Unmarshal_top_literal:
  "Unmarshal (Json (JObj [(''lat'', JNum (DecLit (17976931348623158 * 10 ^ 292)))])) zeroCoords =
     (zeroCoords\<lparr>Lat := Fin MaxFloat64\<rparr>, None)"
  using ParseFloat_rounds_at_top
  by (simp add: fieldByName_tags saveError_def numberValue_def)

text \<open>
  Claim C1, amended. Decoding checks neither the range of a coordinate nor the presence of
  a field. A message that is a JSON object decodes without error exactly when each of its
  entries is acceptable: the key names no field, or the value is \<open>null\<close> or a number
  that fits the field's type. A field for which the object has no entry keeps the value
  the record decoded into held. A message on which decoding returns an error is not
  published. In a session whose producer was created, a message that decodes without
  error is published, re-encoded, whatever its latitude and longitude.
\<close>

theorem decode_rejects_only_ill_typed_fields:
  "(snd (Unmarshal (Json (JObj kvs)) recv) = None \<longleftrightarrow> list_all entryOk kvs) \<and>
   (noEntryFor F_OBUID kvs \<longrightarrow> OBUID (fst (Unmarshal (Json (JObj kvs)) recv)) = OBUID recv) \<and>
   (noEntryFor F_Lat kvs \<longrightarrow> Lat (fst (Unmarshal (Json (JObj kvs)) recv)) = Lat recv) \<and>
   (noEntryFor F_Lon kvs \<longrightarrow> Lon (fst (Unmarshal (Json (JObj kvs)) recv)) = Lon recv) \<and>
   (snd (Unmarshal m recv) \<noteq> None \<longrightarrow>
      produced (trace (snd (readLoop env k recv [m] w))) = produced (trace w)) \<and>
   (snd (Unmarshal m recv) = None \<longrightarrow>
      (\<exists>rest. produced (trace (snd (readLoop env (Some kp) recv (m # ms) w))) =
         produced (trace w) @ resp (fst (Unmarshal m recv)) # rest))"
proof -
  have a: "snd (Unmarshal (Json (JObj kvs)) recv) = None \<longleftrightarrow> list_all entryOk kvs"
    by (simp add: object_ok_iff)
  have f1: "OBUID (fst (Unmarshal (Json (JObj kvs)) recv)) = OBUID recv"
    if "noEntryFor F_OBUID kvs"
    using that by (simp add: object_noEntryFor_OBUID)
  have f2: "Lat (fst (Unmarshal (Json (JObj kvs)) recv)) = Lat recv"
    if "noEntryFor F_Lat kvs"
    using that by (simp add: object_noEntryFor_Lat)
  have f3: "Lon (fst (Unmarshal (Json (JObj kvs)) recv)) = Lon recv"
    if "noEntryFor F_Lon kvs"
    using that by (simp add: object_noEntryFor_Lon)
  note b = readLoop_rejected_single [of m recv env k w]
  note c = readLoop_accepted_first [of m recv env kp ms w]
  from a f1 f2 f3 b c show ?thesis by blast
qed

theorem decode_rejects_only_ill_typed_fields_witness:
  "list_all entryOk [(''obuid'', JNum (IntLit 1)), (''lat'', JNum (IntLit 95)), (''LON'', JNum (IntLit 200))] \<and>
   snd (Unmarshal (Json (JObj [(''obuid'', JNum (IntLit 1)), (''lat'', JNum (IntLit 95)), (''LON'', JNum (IntLit 200))])) zeroCoords) = None \<and>
   noEntryFor F_OBUID [(''lat'', JNum (IntLit 95))] \<and>
   OBUID (fst (Unmarshal (Json (JObj [(''lat'', JNum (IntLit 95))])) \<lparr>OBUID = 1, Lat = Fin 2, Lon = Fin 3\<rparr>)) = 1 \<and>
   noEntryFor F_Lat [(''obuid'', JNum (IntLit 7))] \<and>
   Lat (fst (Unmarshal (Json (JObj [(''obuid'', JNum (IntLit 7))])) \<lparr>OBUID = 1, Lat = Fin 2, Lon = Fin 3\<rparr>)) = Fin 2 \<and>
   noEntryFor F_Lon [(''obuid'', JNum (IntLit 7))] \<and>
   Lon (fst (Unmarshal (Json (JObj [(''obuid'', JNum (IntLit 7))])) \<lparr>OBUID = 1, Lat = Fin 2, Lon = Fin 3\<rparr>)) = Fin 3 \<and>
   snd (Unmarshal (Json (JObj [(''lat'', JStr ''north'')])) zeroCoords) \<noteq> None \<and>
   produced (trace (snd (readLoop quietEnv (Some \<lparr>producer_topic = topic\<rparr>) zeroCoords
      [Json (JObj [(''lat'', JStr ''north'')])] startWorld))) = [] \<and>
   snd (Unmarshal (Json (JObj [(''obuid'', JNum (IntLit 7))])) zeroCoords) = None \<and>
   (\<exists>rest. produced (trace (snd (readLoop quietEnv (Some \<lparr>producer_topic = topic\<rparr>) zeroCoords
      [Json (JObj [(''obuid'', JNum (IntLit 7))]), NotJson] startWorld))) =
     Json (JObj [(''obuid'', JNum (IntLit 7)), (''lat'', JNum (IntLit 0)), (''lon'', JNum (IntLit 0))]) # rest)"
proof -
  have ok: "list_all entryOk [(''obuid'', JNum (IntLit 1)), (''lat'', JNum (IntLit 95)), (''LON'', JNum (IntLit 200))]"
    by (simp add: entryOk_def fieldByName_def jsonTags_def toLower_def numberValue_def MaxFloat64_def)
  have n1: "noEntryFor F_OBUID [(''lat'', JNum (IntLit 95))]"
    by (simp add: noEntryFor_def fieldByName_tags)
  have n2: "noEntryFor F_Lat [(''obuid'', JNum (IntLit 7))]"
    by (simp add: noEntryFor_def fieldByName_tags)
  have n3: "noEntryFor F_Lon [(''obuid'', JNum (IntLit 7))]"
    by (simp add: noEntryFor_def fieldByName_tags)
  have bad: "snd (Unmarshal (Json (JObj [(''lat'', JStr ''north'')])) zeroCoords) \<noteq> None"
    by (simp add: fieldByName_tags saveError_def)
  have good: "snd (Unmarshal (Json (JObj [(''obuid'', JNum (IntLit 7))])) zeroCoords) = None"
    by (simp add: fieldByName_tags saveError_def)
  have r: "resp (fst (Unmarshal (Json (JObj [(''obuid'', JNum (IntLit 7))])) zeroCoords)) =
      Json (JObj [(''obuid'', JNum (IntLit 7)), (''lat'', JNum (IntLit 0)), (''lon'', JNum (IntLit 0))])"
    by (simp add: resp_def Marshal_def fieldByName_tags saveError_def zeroCoords_def encodeFloat_def)
  have s: "produced (trace startWorld) = []"
    by (simp add: startWorld_def)
  note t1 = decode_rejects_only_ill_typed_fields [of
        "[(''obuid'', JNum (IntLit 1)), (''lat'', JNum (IntLit 95)), (''LON'', JNum (IntLit 200))]"
        zeroCoords "Json (JObj [(''lat'', JStr ''north'')])" quietEnv
        "Some \<lparr>producer_topic = topic\<rparr>" startWorld "\<lparr>producer_topic = topic\<rparr>" "[NotJson]"]
  note t2 = decode_rejects_only_ill_typed_fields [of
        "[(''lat'', JNum (IntLit 95))]" "\<lparr>OBUID = 1, Lat = Fin 2, Lon = Fin 3\<rparr>"
        "Json (JObj [(''obuid'', JNum (IntLit 7))])" quietEnv
        "Some \<lparr>producer_topic = topic\<rparr>" startWorld "\<lparr>producer_topic = topic\<rparr>" "[NotJson]"]
  note t3 = decode_rejects_only_ill_typed_fields [of
        "[(''obuid'', JNum (IntLit 7))]" "\<lparr>OBUID = 1, Lat = Fin 2, Lon = Fin 3\<rparr>"
        "Json (JObj [(''obuid'', JNum (IntLit 7))])" quietEnv
        "Some \<lparr>producer_topic = topic\<rparr>" startWorld "\<lparr>producer_topic = topic\<rparr>" "[NotJson]"]
  note t4 = decode_rejects_only_ill_typed_fields [of
        "[]" zeroCoords "Json (JObj [(''obuid'', JNum (IntLit 7))])" quietEnv
        "Some \<lparr>producer_topic = topic\<rparr>" startWorld "\<lparr>producer_topic = topic\<rparr>" "[NotJson]"]
  have c1: "snd (Unmarshal (Json (JObj [(''obuid'', JNum (IntLit 1)), (''lat'', JNum (IntLit 95)), (''LON'', JNum (IntLit 200))])) zeroCoords) = None"
    using t1 ok by blast
  have c2: "OBUID (fst (Unmarshal (Json (JObj [(''lat'', JNum (IntLit 95))])) \<lparr>OBUID = 1, Lat = Fin 2, Lon = Fin 3\<rparr>)) = 1"
    using t2 n1 by simp
  have c3: "Lat (fst (Unmarshal (Json (JObj [(''obuid'', JNum (IntLit 7))])) \<lparr>OBUID = 1, Lat = Fin 2, Lon = Fin 3\<rparr>)) = Fin 2"
    using t3 n2 by simp
  have c4: "Lon (fst (Unmarshal (Json (JObj [(''obuid'', JNum (IntLit 7))])) \<lparr>OBUID = 1, Lat = Fin 2, Lon = Fin 3\<rparr>)) = Fin 3"
    using t3 n3 by simp
  have c5: "produced (trace (snd (readLoop quietEnv (Some \<lparr>producer_topic = topic\<rparr>) zeroCoords
      [Json (JObj [(''lat'', JStr ''north'')])] startWorld))) = []"
    using t1 bad s by simp
  have c6: "\<exists>rest. produced (trace (snd (readLoop quietEnv (Some \<lparr>producer_topic = topic\<rparr>) zeroCoords
      [Json (JObj [(''obuid'', JNum (IntLit 7))]), NotJson] startWorld))) =
     Json (JObj [(''obuid'', JNum (IntLit 7)), (''lat'', JNum (IntLit 0)), (''lon'', JNum (IntLit 0))]) # rest"
    using t4 good r s by (simp del: readLoop.simps Unmarshal.simps)
  from ok c1 n1 c2 n2 c3 n3 c4 bad c5 good c6 show ?thesis by blast
qed

section \<open>The consumer loop\<close>

lemma kafkaconsumeLoop_sent:
  "sent (trace (snd (snd (kafkaconsumeLoop evs t w)))) = sent (trace w) @ forwarded t evs"
proof (induction evs t w rule: kafkaconsumeLoop.induct)
  case (1 t w)
  show ?case by simp
next
  case (2 hs v evs t w)
  obtain t' err where u: "Unmarshal v t = (t', err)" by (cases "Unmarshal v t")
  show ?case
    using "2.IH" [OF u [symmetric]] u by (cases err) simp_all
next
  case (3 e evs t w)
  show ?case by simp
next
  case (4 evs t w)
  then show ?case by simp
qed

lemma Unmarshal_non_object_keeps:
  "(\<forall>kvs. v \<noteq> Json (JObj kvs)) \<Longrightarrow> fst (Unmarshal v t) = t"
  by (cases "(v, t)" rule: Unmarshal.cases) auto

lemma Unmarshal_filter_ok:
  "fst (Unmarshal (Json (JObj kvs)) t) = fst (Unmarshal (Json (JObj (filter entryOk kvs))) t)"
  using object_filter_ok [of kvs t None] by simp

text \<open>
  Claim C10 says that after a failed unmarshal the previously decoded record, or the zero
  record, is forwarded. When the failure is a type error in one field the decoder has
  already stored the other fields: after the record (1, 2, 3) a message with
  \<open>obuid\<close> 7 and a string for \<open>lat\<close> fails to unmarshal, and the record
  forwarded is (7, 2, 3), neither the previous record nor the zero record.
\<close>

theorem forwarded_record_is_not_the_previous_one:
  "snd (Unmarshal (Json (JObj [(''obuid'', JNum (IntLit 7)), (''lat'', JStr ''north'')]))
          \<lparr>OBUID = 1, Lat = Fin 2, Lon = Fin 3\<rparr>) = Some (UnmarshalTypeError ''lat'') \<and>
   sent (trace (snd (snd (kafkaconsumeLoop
     [KMessage [] (Json (JObj [(''obuid'', JNum (IntLit 1)), (''lat'', JNum (IntLit 2)), (''lon'', JNum (IntLit 3))])),
      KMessage [] (Json (JObj [(''obuid'', JNum (IntLit 7)), (''lat'', JStr ''north'')]))]
     zeroCoords startWorld)))) =
     [\<lparr>OBUID = 1, Lat = Fin 2, Lon = Fin 3\<rparr>, \<lparr>OBUID = 7, Lat = Fin 2, Lon = Fin 3\<rparr>] \<and>
   \<lparr>OBUID = 7, Lat = Fin 2, Lon = Fin 3\<rparr> \<noteq> \<lparr>OBUID = 1 :: 64 word, Lat = Fin 2, Lon = Fin 3\<rparr> \<and>
   \<lparr>OBUID = 7, Lat = Fin 2, Lon = Fin 3\<rparr> \<noteq> zeroCoords"
  by (simp add: startWorld_def fieldByName_tags saveError_def zeroCoords_def
        numberValue_def ParseFloat_def MaxFloat64_def emit_def)

text \<open>
  Claim C10, amended. The consumer loop sends one value on the channel for every message
  event, whether or not the payload unmarshals: the variable \<open>t\<close> as the call of
  \<open>Unmarshal\<close> left it. A payload that is not a JSON object (bytes that are not
  JSON among them) leaves \<open>t\<close> as it was, so the previous record, or the zero
  record at the start, is sent again. A payload that is an object leaves \<open>t\<close> as
  the same object without its unacceptable entries would: the previous record with the
  acceptable fields stored over it.
\<close>

theorem consumer_forwards_after_failed_unmarshal:
  "sent (trace (snd (snd (kafkaconsumeLoop evs t w)))) = sent (trace w) @ forwarded t evs \<and>
   ((\<forall>kvs. v \<noteq> Json (JObj kvs)) \<longrightarrow> fst (Unmarshal v t) = t) \<and>
   fst (Unmarshal (Json (JObj kvs)) t) = fst (Unmarshal (Json (JObj (filter entryOk kvs))) t)"
  using kafkaconsumeLoop_sent [of evs t w] Unmarshal_non_object_keeps [of v t]
    Unmarshal_filter_ok [of kvs t]
  by blast

theorem consumer_forwards_after_failed_unmarshal_witness:
  "(\<forall>kvs. NotJson \<noteq> Json (JObj kvs)) \<and>
   snd (Unmarshal NotJson \<lparr>OBUID = 1, Lat = Fin 2, Lon = Fin 3\<rparr>) \<noteq> None \<and>
   fst (Unmarshal NotJson \<lparr>OBUID = 1, Lat = Fin 2, Lon = Fin 3\<rparr>) = \<lparr>OBUID = 1, Lat = Fin 2, Lon = Fin 3\<rparr> \<and>
   sent (trace (snd (snd (kafkaconsumeLoop
     [KMessage [] NotJson,
      KMessage [] (Json (JObj [(''obuid'', JNum (IntLit 1)), (''lat'', JNum (IntLit 2)), (''lon'', JNum (IntLit 3))])),
      KMessage [] NotJson,
      KMessage [] (Json (JObj [(''obuid'', JNum (IntLit 7)), (''lat'', JStr ''north'')]))]
     zeroCoords startWorld)))) =
     [zeroCoords, \<lparr>OBUID = 1, Lat = Fin 2, Lon = Fin 3\<rparr>, \<lparr>OBUID = 1, Lat = Fin 2, Lon = Fin 3\<rparr>,
      \<lparr>OBUID = 7, Lat = Fin 2, Lon = Fin 3\<rparr>] \<and>
   fst (Unmarshal (Json (JObj [(''obuid'', JNum (IntLit 7)), (''lat'', JStr ''north'')]))
          \<lparr>OBUID = 1, Lat = Fin 2, Lon = Fin 3\<rparr>) =
     fst (Unmarshal (Json (JObj [(''obuid'', JNum (IntLit 7))])) \<lparr>OBUID = 1, Lat = Fin 2, Lon = Fin 3\<rparr>)"
proof -
  have h: "\<forall>kvs. NotJson \<noteq> Json (JObj kvs)" by simp
  have f: "filter entryOk [(''obuid'', JNum (IntLit 7)), (''lat'', JStr ''north'')] =
      [(''obuid'', JNum (IntLit 7))]"
    by (simp add: entryOk_def fieldByName_tags)
  show ?thesis
    using h f
      consumer_forwards_after_failed_unmarshal [of
        "[KMessage [] NotJson,
          KMessage [] (Json (JObj [(''obuid'', JNum (IntLit 1)), (''lat'', JNum (IntLit 2)), (''lon'', JNum (IntLit 3))])),
          KMessage [] NotJson,
          KMessage [] (Json (JObj [(''obuid'', JNum (IntLit 7)), (''lat'', JStr ''north'')]))]"
        zeroCoords startWorld NotJson
        "[(''obuid'', JNum (IntLit 7)), (''lat'', JStr ''north'')]"]
      consumer_forwards_after_failed_unmarshal [of "[]"
        "\<lparr>OBUID = 1, Lat = Fin 2, Lon = Fin 3\<rparr>" startWorld NotJson
        "[(''obuid'', JNum (IntLit 7)), (''lat'', JStr ''north'')]"]
    by (simp add: startWorld_def fieldByName_tags saveError_def zeroCoords_def
        numberValue_def ParseFloat_def MaxFloat64_def)
qed

end
